theory Spec2Isabelle
  imports Main "HOL-Library.Word"
begin

section \<open>Shared conventions\<close>

text \<open>
  The C++ sources use \<open>assert\<close> from \<open><cassert>\<close>: in a debug build a failed assertion
  aborts the program, in a release build (\<open>NDEBUG\<close>) the assertion is compiled out and the
  statements after it run. The build is a parameter of every operation that asserts.
  Dereferencing a null pointer and reading or writing outside a buffer are undefined
  behaviour; the model stops there with an error value instead of inventing a result.
\<close>

datatype build = Debug | Release

datatype buffer = IndexedImage | RgbImage | PaletteData

datatype failure =
    AssertionFailed
  | NullDereference
  | OutOfBounds buffer
  | BadArrayLength

definition assert_fails :: "build \<Rightarrow> bool \<Rightarrow> bool" where
  "assert_fails bld c = (bld = Debug \<and> \<not> c)"

section \<open>Controller/VertexTool.cpp\<close>

subsection \<open>Data\<close>

datatype EState = INACTIVE | ACTIVE | SELECTED | DRAGGING

type_synonym brush_ref = nat
type_synonym figure_ref = nat

text \<open>\<open>Model::Hit\<close>: the brush it belongs to, the handle index and the hit point.\<close>

record 'v Hit =
  hit_brush :: brush_ref
  hit_index :: int
  hitPoint :: 'v

text \<open>\<open>Model::MoveResult\<close>, as \<open>doLeftDrag\<close> reads it.\<close>

record MoveResult =
  index :: int
  moved :: bool

text \<open>
  \<open>ToolEvent\<close>: only \<open>event.hits->first(type, ignoreOccluders)\<close> is used; the hit list is
  represented by that query.
\<close>

record 'v ToolEvent =
  hits_first :: "int \<Rightarrow> bool \<Rightarrow> 'v Hit option"

text \<open>An entry of \<open>Model::BrushList\<close>, as \<open>brushesDidChange\<close> reads it.\<close>

record Brush =
  brush_id :: brush_ref
  selected :: bool

datatype figure_class = HandleFigure | PointGuideFigure

datatype colour = HandleColor | HiddenHandleColor | SelectedHandleColor | HiddenSelectedHandleColor

datatype listener = BrushesDidChange | SelectionAdded | SelectionRemoved

text \<open>
  Calls that leave the tool, in the order they are made: the figure objects and the
  renderer's figure list, the undo manager, the document's events, and the brush move
  of the concrete tool.
\<close>

datatype 'v effect =
    NewFigure figure_ref figure_class
  | SetColor figure_ref colour
  | SetHiddenColor figure_ref colour
  | AddFigure figure_ref
  | RemoveFigure figure_ref
  | DeleteFigure figure_ref
  | UpdateHandleFigure figure_ref
  | UpdateSelectedHandleFigures figure_ref figure_ref brush_ref int
  | PerformMove brush_ref int 'v
  | UndoBegin string
  | UndoEnd
  | Subscribe listener
  | Unsubscribe listener

text \<open>
  The world outside the tool: the document \<open>doc\<close> (the map with its brushes, which a
  move changes), the calls made so far, and the next free figure address.
\<close>

record ('d, 'v) world =
  doc :: 'd
  trace :: "'v effect list"
  next_figure :: figure_ref

text \<open>The members of \<open>VertexTool\<close>. A null pointer is \<open>None\<close>.\<close>

record tool =
  m_state :: EState
  m_brush :: "brush_ref option"
  m_index :: int
  m_handleFigure :: "figure_ref option"
  m_selectedHandleFigure :: "figure_ref option"
  m_guideFigure :: "figure_ref option"

text \<open>
  What \<open>VertexTool.cpp\<close> calls and does not define: the pure virtual members of the tool
  (\<open>hitType\<close>, \<open>undoName\<close>, \<open>movePosition\<close>, \<open>performMove\<close>), the grid's \<open>moveDelta\<close>, the
  map's \<open>worldBounds\<close>, and the operations of \<open>Vec3f\<close> (\<open>operator-\<close>, \<open>operator+=\<close>,
  \<open>null()\<close>). \<open>performMove\<close> returns its result and the changed document.
\<close>

record ('d, 'v, 'bb) env =
  hitType :: int
  undoName :: string
  movePosition :: "'d \<Rightarrow> brush_ref \<Rightarrow> int \<Rightarrow> 'v"
  performMove :: "'d \<Rightarrow> brush_ref \<Rightarrow> int \<Rightarrow> 'v \<Rightarrow> MoveResult \<times> 'd"
  moveDelta :: "'v \<Rightarrow> 'bb \<Rightarrow> 'v \<Rightarrow> 'v"
  worldBounds :: "'d \<Rightarrow> 'bb"
  vsub :: "'v \<Rightarrow> 'v \<Rightarrow> 'v"
  vadd :: "'v \<Rightarrow> 'v \<Rightarrow> 'v"
  vnull :: "'v \<Rightarrow> bool"

definition emit :: "'v effect list \<Rightarrow> ('d, 'v) world \<Rightarrow> ('d, 'v) world" where
  "emit es w = w\<lparr>trace := trace w @ es\<rparr>"

subsection \<open>Operations\<close>

definition tool_index :: "'v Hit \<Rightarrow> int" where
  "tool_index hit = hit_index hit"

text \<open>\<open>VertexTool::VertexTool\<close>.\<close>

definition VertexTool :: tool where
  "VertexTool = \<lparr>m_state = INACTIVE, m_brush = None, m_index = -1, m_handleFigure = None,
     m_selectedHandleFigure = None, m_guideFigure = None\<rparr>"

text \<open>
  The two refreshes the notifications and the drag step make:
  \<open>updateHandleFigure(*m_handleFigure)\<close> and
  \<open>updateSelectedHandleFigures(*m_selectedHandleFigure, *m_guideFigure, *m_brush, m_index)\<close>.
\<close>

definition refreshHandleFigure :: "tool \<Rightarrow> ('d, 'v) world \<Rightarrow> failure + ('d, 'v) world" where
  "refreshHandleFigure t w =
     (case m_handleFigure t of
        None \<Rightarrow> Inl NullDereference
      | Some f \<Rightarrow> Inr (emit [UpdateHandleFigure f] w))"

definition refreshSelectedHandleFigures :: "tool \<Rightarrow> ('d, 'v) world \<Rightarrow> failure + ('d, 'v) world" where
  "refreshSelectedHandleFigures t w =
     (case m_selectedHandleFigure t of
        None \<Rightarrow> Inl NullDereference
      | Some s \<Rightarrow>
         (case m_guideFigure t of
            None \<Rightarrow> Inl NullDereference
          | Some g \<Rightarrow>
             (case m_brush t of
                None \<Rightarrow> Inl NullDereference
              | Some b \<Rightarrow> Inr (emit [UpdateSelectedHandleFigures s g b (m_index t)] w))))"

text \<open>The body both notifications share: the two \<open>if\<close>s on \<open>m_state\<close>.\<close>

definition refreshForState :: "tool \<Rightarrow> ('d, 'v) world \<Rightarrow> failure + ('d, 'v) world" where
  "refreshForState t w =
     (case (if m_state t = ACTIVE then refreshHandleFigure t w else Inr w) of
        Inl e \<Rightarrow> Inl e
      | Inr w1 \<Rightarrow>
         (if m_state t = SELECTED \<or> m_state t = DRAGGING
          then refreshSelectedHandleFigures t w1 else Inr w1))"

text \<open>The loop of \<open>brushesDidChange\<close>: the first selected brush refreshes and breaks.\<close>

fun brushesDidChange_loop :: "tool \<Rightarrow> ('d, 'v) world \<Rightarrow> Brush list \<Rightarrow> failure + ('d, 'v) world" where
  "brushesDidChange_loop t w [] = Inr w"
| "brushesDidChange_loop t w (b # bs) =
     (if selected b then refreshForState t w else brushesDidChange_loop t w bs)"

definition brushesDidChange ::
  "build \<Rightarrow> Brush list \<Rightarrow> tool \<Rightarrow> ('d, 'v) world \<Rightarrow> failure + ('d, 'v) world" where
  "brushesDidChange bld brushes t w =
     (if assert_fails bld (m_state t \<noteq> INACTIVE) then Inl AssertionFailed
      else brushesDidChange_loop t w brushes)"

definition selectionChanged ::
  "build \<Rightarrow> tool \<Rightarrow> ('d, 'v) world \<Rightarrow> failure + ('d, 'v) world" where
  "selectionChanged bld t w =
     (if assert_fails bld (m_state t \<noteq> INACTIVE) then Inl AssertionFailed
      else refreshForState t w)"

definition deleteHandleFigure :: "tool \<Rightarrow> ('d, 'v) world \<Rightarrow> tool \<times> ('d, 'v) world" where
  "deleteHandleFigure t w =
     (case m_handleFigure t of
        None \<Rightarrow> (t, w)
      | Some f \<Rightarrow> (t\<lparr>m_handleFigure := None\<rparr>, emit [RemoveFigure f, DeleteFigure f] w))"

definition createHandleFigure :: "tool \<Rightarrow> ('d, 'v) world \<Rightarrow> tool \<times> ('d, 'v) world" where
  "createHandleFigure t w =
     (let (t1, w1) = deleteHandleFigure t w;
          f = next_figure w1;
          w2 = emit [NewFigure f HandleFigure, SetColor f HandleColor,
                     SetHiddenColor f HiddenHandleColor, UpdateHandleFigure f, AddFigure f]
                 (w1\<lparr>next_figure := Suc f\<rparr>)
      in (t1\<lparr>m_handleFigure := Some f\<rparr>, w2))"

definition deleteSelectedHandleFigures :: "tool \<Rightarrow> ('d, 'v) world \<Rightarrow> tool \<times> ('d, 'v) world" where
  "deleteSelectedHandleFigures t w =
     (let (t1, w1) =
            (case m_selectedHandleFigure t of
               None \<Rightarrow> (t, w)
             | Some s \<Rightarrow> (t\<lparr>m_selectedHandleFigure := None\<rparr>,
                          emit [RemoveFigure s, DeleteFigure s] w))
      in (case m_guideFigure t1 of
            None \<Rightarrow> (t1, w1)
          | Some g \<Rightarrow> (t1\<lparr>m_guideFigure := None\<rparr>, emit [RemoveFigure g, DeleteFigure g] w1)))"

definition createSelectedHandleFigures ::
  "build \<Rightarrow> tool \<Rightarrow> ('d, 'v) world \<Rightarrow> failure + tool \<times> ('d, 'v) world" where
  "createSelectedHandleFigures bld t w =
     (if assert_fails bld (m_brush t \<noteq> None) then Inl AssertionFailed
      else if assert_fails bld (m_index t \<ge> 0) then Inl AssertionFailed
      else
        (let (t1, w1) = deleteSelectedHandleFigures t w;
             s = next_figure w1;
             g = Suc s;
             w2 = emit [NewFigure s HandleFigure, SetColor s SelectedHandleColor,
                        SetHiddenColor s HiddenSelectedHandleColor,
                        NewFigure g PointGuideFigure, SetColor g SelectedHandleColor,
                        SetHiddenColor g HiddenSelectedHandleColor]
                    (w1\<lparr>next_figure := Suc g\<rparr>);
             t2 = t1\<lparr>m_selectedHandleFigure := Some s, m_guideFigure := Some g\<rparr>
         in (case refreshSelectedHandleFigures t2 w2 of
               Inl e \<Rightarrow> Inl e
             | Inr w3 \<Rightarrow> Inr (t2, emit [AddFigure s, AddFigure g] w3))))"

definition activated :: "build \<Rightarrow> tool \<Rightarrow> ('d, 'v) world \<Rightarrow> failure + tool \<times> ('d, 'v) world" where
  "activated bld t w =
     (if assert_fails bld (m_state t = INACTIVE) then Inl AssertionFailed
      else
        (let (t1, w1) = createHandleFigure t w;
             w2 = emit [Subscribe BrushesDidChange, Subscribe SelectionAdded,
                        Subscribe SelectionRemoved] w1
         in Inr (t1\<lparr>m_state := ACTIVE\<rparr>, w2)))"

definition deactivated :: "build \<Rightarrow> tool \<Rightarrow> ('d, 'v) world \<Rightarrow> failure + tool \<times> ('d, 'v) world" where
  "deactivated bld t w =
     (if assert_fails bld (m_state t \<noteq> INACTIVE) then Inl AssertionFailed
      else
        (let (t1, w1) = deleteHandleFigure t w;
             w2 = emit [Unsubscribe BrushesDidChange, Unsubscribe SelectionAdded,
                        Unsubscribe SelectionRemoved] w1
         in Inr (t1\<lparr>m_state := INACTIVE\<rparr>, w2)))"

definition leftMouseDown ::
  "build \<Rightarrow> ('d, 'v, 'bb) env \<Rightarrow> 'v ToolEvent \<Rightarrow> tool \<Rightarrow> ('d, 'v) world
   \<Rightarrow> failure + bool \<times> tool \<times> ('d, 'v) world" where
  "leftMouseDown bld e ev t w =
     (if assert_fails bld (m_state t = ACTIVE) then Inl AssertionFailed
      else
        (case hits_first ev (hitType e) True of
           Some hit \<Rightarrow>
             (let t1 = t\<lparr>m_brush := Some (hit_brush hit), m_index := tool_index hit\<rparr>;
                  (t2, w2) = deleteHandleFigure t1 w
              in (case createSelectedHandleFigures bld t2 w2 of
                    Inl x \<Rightarrow> Inl x
                  | Inr (t3, w3) \<Rightarrow> Inr (True, t3\<lparr>m_state := SELECTED\<rparr>, w3)))
         | None \<Rightarrow> Inr (False, t, w)))"


text \<open>
  \<open>doBeginLeftDrag\<close> returns its result, the caller's \<open>initialPoint\<close> (written only on a
  hit), the tool and the world.
\<close>

definition doBeginLeftDrag ::
  "build \<Rightarrow> ('d, 'v, 'bb) env \<Rightarrow> 'v ToolEvent \<Rightarrow> 'v \<Rightarrow> tool \<Rightarrow> ('d, 'v) world
   \<Rightarrow> failure + bool \<times> 'v \<times> tool \<times> ('d, 'v) world" where
  "doBeginLeftDrag bld e ev initialPoint t w =
     (case hits_first ev (hitType e) True of
        None \<Rightarrow> Inr (False, initialPoint, t, w)
      | Some hit \<Rightarrow>
         (if assert_fails bld (m_state t = SELECTED) then Inl AssertionFailed
          else
            (let t1 = t\<lparr>m_brush := Some (hit_brush hit), m_index := tool_index hit\<rparr>;
                 (t2, w2) = deleteHandleFigure t1 w;
                 w3 = emit [UndoBegin (undoName e)] w2
             in Inr (True, hitPoint hit, t2\<lparr>m_state := DRAGGING\<rparr>, w3))))"

text \<open>
  \<open>doLeftDrag\<close> returns its result, the caller's \<open>referencePoint\<close>, the tool and the world.
  \<open>lastMousePoint\<close> is a parameter the body never reads.
\<close>

definition doLeftDrag ::
  "build \<Rightarrow> ('d, 'v, 'bb) env \<Rightarrow> 'v \<Rightarrow> 'v \<Rightarrow> 'v \<Rightarrow> tool \<Rightarrow> ('d, 'v) world
   \<Rightarrow> failure + bool \<times> 'v \<times> tool \<times> ('d, 'v) world" where
  "doLeftDrag bld e lastMousePoint curMousePoint referencePoint t w =
     (if assert_fails bld (m_state t = DRAGGING) then Inl AssertionFailed
      else if assert_fails bld (m_brush t \<noteq> None) then Inl AssertionFailed
      else if assert_fails bld (m_index t \<noteq> -1) then Inl AssertionFailed
      else
        (case m_brush t of
           None \<Rightarrow> Inl NullDereference
         | Some b \<Rightarrow>
            (let position = movePosition e (doc w) b (m_index t);
                 delta = moveDelta e position (worldBounds e (doc w))
                           (vsub e curMousePoint referencePoint)
             in if vnull e delta then Inr (True, referencePoint, t, w)
                else
                  (let (result, d1) = performMove e (doc w) b (m_index t) delta;
                       w1 = emit [PerformMove b (m_index t) delta] (w\<lparr>doc := d1\<rparr>);
                       t1 = t\<lparr>m_index := index result\<rparr>
                   in if index result = -1 then Inr (False, referencePoint, t1, w1)
                      else
                        (let referencePoint1 =
                               (if moved result then vadd e referencePoint delta
                                else referencePoint)
                         in (case refreshSelectedHandleFigures t1 w1 of
                               Inl x \<Rightarrow> Inl x
                             | Inr w2 \<Rightarrow> Inr (True, referencePoint1, t1, w2)))))))"


text \<open>
  The snapped delta of a drag step, as \<open>doLeftDrag\<close> computes it from the handle's position,
  the world bounds and the pointer movement since the reference point.
\<close>

definition snappedDelta ::
  "('d, 'v, 'bb) env \<Rightarrow> ('d, 'v) world \<Rightarrow> brush_ref \<Rightarrow> int \<Rightarrow> 'v \<Rightarrow> 'v \<Rightarrow> 'v" where
  "snappedDelta e w b i curMousePoint referencePoint =
     moveDelta e (movePosition e (doc w) b i) (worldBounds e (doc w))
       (vsub e curMousePoint referencePoint)"

text \<open>The calls to the undo manager among the calls made.\<close>

fun is_undo_call :: "'v effect \<Rightarrow> bool" where
  "is_undo_call (UndoBegin n) = True"
| "is_undo_call UndoEnd = True"
| "is_undo_call x = False"

definition undo_calls :: "'v effect list \<Rightarrow> 'v effect list" where
  "undo_calls es = filter is_undo_call es"

section \<open>View/MapFrame.cpp: the convex merge command\<close>

text \<open>
  What \<open>canDoCsgConvexMerge\<close> and \<open>csgConvexMerge\<close> read of the document and of the map
  view: the selection's counts and, for each of the three tools, whether it is active
  and whether it reports that it can merge.
\<close>

record MapFrame =
  hasSelectedBrushFaces :: bool
  selectedBrushFaces_size :: nat
  selectedNodes_hasOnlyBrushes :: bool
  selectedNodes_brushCount :: nat
  vertexToolActive :: bool
  vertexTool_canDoCsgConvexMerge :: bool
  edgeToolActive :: bool
  edgeTool_canDoCsgConvexMerge :: bool
  faceToolActive :: bool
  faceTool_canDoCsgConvexMerge :: bool

text \<open>The receiver of the merge that \<open>csgConvexMerge\<close> forwards to.\<close>

datatype merge_call = VertexToolMerge | EdgeToolMerge | FaceToolMerge | DocumentMerge

definition canDoCsgConvexMerge :: "MapFrame \<Rightarrow> bool" where
  "canDoCsgConvexMerge f =
     ((hasSelectedBrushFaces f \<and> selectedBrushFaces_size f > 1)
      \<or> (selectedNodes_hasOnlyBrushes f \<and> selectedNodes_brushCount f > 1)
      \<or> (vertexToolActive f \<and> vertexTool_canDoCsgConvexMerge f)
      \<or> (edgeToolActive f \<and> edgeTool_canDoCsgConvexMerge f)
      \<or> (faceToolActive f \<and> faceTool_canDoCsgConvexMerge f))"

text \<open>The calls \<open>csgConvexMerge\<close> makes: none, or one merge.\<close>

definition csgConvexMerge :: "MapFrame \<Rightarrow> merge_call list" where
  "csgConvexMerge f =
     (if canDoCsgConvexMerge f then
        (if vertexToolActive f \<and> vertexTool_canDoCsgConvexMerge f then [VertexToolMerge]
         else if edgeToolActive f \<and> edgeTool_canDoCsgConvexMerge f then [EdgeToolMerge]
         else if faceToolActive f \<and> faceTool_canDoCsgConvexMerge f then [FaceToolMerge]
         else [DocumentMerge])
      else [])"

text \<open>Whether one of the three tools is active and reports that it can merge.\<close>

definition toolCanMerge :: "MapFrame \<Rightarrow> bool" where
  "toolCanMerge f =
     ((vertexToolActive f \<and> vertexTool_canDoCsgConvexMerge f)
      \<or> (edgeToolActive f \<and> edgeTool_canDoCsgConvexMerge f)
      \<or> (faceToolActive f \<and> faceTool_canDoCsgConvexMerge f))"

section \<open>Model/Assets/Palette.cpp\<close>

type_synonym byte = "8 word"

record Palette =
  m_data :: "byte list"
  m_size :: int

text \<open>
  \<open>Palette::Palette\<close>. The file is its bytes, or \<open>None\<close> when it cannot be opened.
  \<open>m_size\<close> is the length cast to a 32-bit \<open>int\<close>; \<open>new unsigned char[m_size]\<close> with a
  negative size throws. A stream that is not open reports position \<open>-1\<close>.
\<close>

definition Palette_load :: "build \<Rightarrow> byte list option \<Rightarrow> failure + Palette" where
  "Palette_load bld file =
     (if assert_fails bld (file \<noteq> None) then Inl AssertionFailed
      else
        (case file of
           None \<Rightarrow> Inl BadArrayLength
         | Some bytes \<Rightarrow>
            (let size = sint (word_of_nat (length bytes) :: 32 word)
             in if size < 0 then Inl BadArrayLength
                else Inr \<lparr>m_data = take (nat size) bytes, m_size = size\<rparr>)))"

definition read_byte :: "buffer \<Rightarrow> byte list \<Rightarrow> nat \<Rightarrow> failure + byte" where
  "read_byte which xs i = (if i < length xs then Inr (xs ! i) else Inl (OutOfBounds which))"

definition write_byte :: "buffer \<Rightarrow> byte list \<Rightarrow> nat \<Rightarrow> byte \<Rightarrow> failure + byte list" where
  "write_byte which xs i v = (if i < length xs then Inr (xs[i := v]) else Inl (OutOfBounds which))"

text \<open>
  The inner loop over \<open>j\<close>: \<open>rgbImage[i * 3 + j] = m_data[index * 3 + j]\<close>. \<open>i\<close> and \<open>j\<close> are
  \<open>unsigned int\<close>, so \<open>i * 3 + j\<close> wraps at \<open>2 ^ 32\<close>; \<open>index\<close> is at most 255.
\<close>

function indexToRgb_inner :: "Palette \<Rightarrow> nat \<Rightarrow> nat \<Rightarrow> nat \<Rightarrow> byte list \<Rightarrow> failure + byte list" where
  "indexToRgb_inner p idx i j rgbImage =
     (if j < 3 then
        (case read_byte PaletteData (m_data p) (idx * 3 + j) of
           Inl x \<Rightarrow> Inl x
         | Inr v \<Rightarrow>
            (case write_byte RgbImage rgbImage ((i * 3 + j) mod 2 ^ 32) v of
               Inl x \<Rightarrow> Inl x
             | Inr rgb1 \<Rightarrow> indexToRgb_inner p idx i (j + 1) rgb1))
      else Inr rgbImage)"
  by pat_completeness auto
termination
  by (relation "measure (\<lambda>(p, idx, i, j, rgbImage). 3 - j)") auto

text \<open>The outer loop over the pixels, with the assertion on each index.\<close>

function indexToRgb_loop ::
  "build \<Rightarrow> Palette \<Rightarrow> byte list \<Rightarrow> nat \<Rightarrow> nat \<Rightarrow> byte list \<Rightarrow> failure + byte list" where
  "indexToRgb_loop bld p indexedImage pixelCount i rgbImage =
     (if i < pixelCount then
        (case read_byte IndexedImage indexedImage i of
           Inl x \<Rightarrow> Inl x
         | Inr ix \<Rightarrow>
            (if assert_fails bld (uint ix < m_size p) then Inl AssertionFailed
             else
               (case indexToRgb_inner p (unat ix) i 0 rgbImage of
                  Inl x \<Rightarrow> Inl x
                | Inr rgb1 \<Rightarrow> indexToRgb_loop bld p indexedImage pixelCount (i + 1) rgb1)))
      else Inr rgbImage)"
  by pat_completeness auto
termination
  by (relation "measure (\<lambda>(bld, p, indexedImage, pixelCount, i, rgbImage). pixelCount - i)") auto

definition indexToRgb ::
  "build \<Rightarrow> Palette \<Rightarrow> byte list \<Rightarrow> byte list \<Rightarrow> 32 word \<Rightarrow> failure + byte list" where
  "indexToRgb bld p indexedImage rgbImage pixelCount =
     indexToRgb_loop bld p indexedImage (unat pixelCount) 0 rgbImage"

section \<open>Concrete instances\<close>

text \<open>
  A tool over integer vectors whose document is the position of its one handle: the grid
  is off, the move returns a fixed result and moves the handle when that result says so.
\<close>

type_synonym vec3 = "int \<times> int \<times> int"

definition vec_sub :: "vec3 \<Rightarrow> vec3 \<Rightarrow> vec3" where
  "vec_sub a b =
     (case a of (ax, ay, az) \<Rightarrow> case b of (bx, by, bz) \<Rightarrow> (ax - bx, ay - by, az - bz))"

definition vec_add :: "vec3 \<Rightarrow> vec3 \<Rightarrow> vec3" where
  "vec_add a b =
     (case a of (ax, ay, az) \<Rightarrow> case b of (bx, by, bz) \<Rightarrow> (ax + bx, ay + by, az + bz))"

definition example_env :: "MoveResult \<Rightarrow> (vec3, vec3, unit) env" where
  "example_env r =
     \<lparr>hitType = 1, undoName = ''Move Vertex'',
      movePosition = (\<lambda>d b i. d),
      performMove = (\<lambda>d b i v. (r, if moved r then vec_add d v else d)),
      moveDelta = (\<lambda>position bounds raw. raw),
      worldBounds = (\<lambda>d. ()),
      vsub = vec_sub, vadd = vec_add, vnull = (\<lambda>v. v = (0, 0, 0))\<rparr>"

definition example_hit :: "vec3 ToolEvent" where
  "example_hit = \<lparr>hits_first = (\<lambda>ty occluded.
     Some \<lparr>hit_brush = 0, hit_index = 2, hitPoint = (16, 16, 16)\<rparr>)\<rparr>"

definition example_miss :: "vec3 ToolEvent" where
  "example_miss = \<lparr>hits_first = (\<lambda>ty occluded. None)\<rparr>"

definition example_world :: "(vec3, vec3) world" where
  "example_world = \<lparr>doc = (16, 16, 16), trace = [], next_figure = 3\<rparr>"

definition example_active :: tool where
  "example_active = \<lparr>m_state = ACTIVE, m_brush = None, m_index = -1, m_handleFigure = Some 0,
     m_selectedHandleFigure = None, m_guideFigure = None\<rparr>"

definition example_selected :: tool where
  "example_selected = \<lparr>m_state = SELECTED, m_brush = Some 0, m_index = 2, m_handleFigure = None,
     m_selectedHandleFigure = Some 1, m_guideFigure = Some 2\<rparr>"

definition example_dragging :: tool where
  "example_dragging = \<lparr>m_state = DRAGGING, m_brush = Some 0, m_index = 2, m_handleFigure = None,
     m_selectedHandleFigure = Some 1, m_guideFigure = Some 2\<rparr>"

text \<open>A frame with the given numbers of selected faces and brushes and no tool active.\<close>

definition example_frame :: "nat \<Rightarrow> nat \<Rightarrow> MapFrame" where
  "example_frame faces brushes =
     \<lparr>hasSelectedBrushFaces = (faces > 0), selectedBrushFaces_size = faces,
      selectedNodes_hasOnlyBrushes = (brushes > 0), selectedNodes_brushCount = brushes,
      vertexToolActive = False, vertexTool_canDoCsgConvexMerge = False,
      edgeToolActive = False, edgeTool_canDoCsgConvexMerge = False,
      faceToolActive = False, faceTool_canDoCsgConvexMerge = False\<rparr>"

text \<open>The palette of a file of three bytes: one colour.\<close>

definition example_palette :: Palette where
  "example_palette = \<lparr>m_data = [10, 20, 30], m_size = 3\<rparr>"

section \<open>The example states\<close>

text \<open>
  The three example tools are states of real runs: from the constructor's tool,
  \<open>activated\<close> gives \<open>example_active\<close>; from there \<open>leftMouseDown\<close> on the example hit gives
  \<open>example_selected\<close> (figures 1 and 2, next free figure 3); from there \<open>doBeginLeftDrag\<close>
  gives \<open>example_dragging\<close>.
\<close>

lemma example_states_reached:
  "map_sum id fst (activated Debug VertexTool
      \<lparr>doc = (16, 16, 16), trace = ([] :: vec3 effect list), next_figure = 0\<rparr>)
     = Inr example_active"
  "map_sum id (\<lambda>(r, t, w). (r, t, next_figure w))
     (leftMouseDown Debug (example_env \<lparr>index = 2, moved = True\<rparr>) example_hit example_active
        \<lparr>doc = (16, 16, 16), trace = [], next_figure = 1\<rparr>)
     = Inr (True, example_selected, 3)"
  "doBeginLeftDrag Debug (example_env \<lparr>index = 2, moved = True\<rparr>) example_hit (0, 0, 0)
     example_selected example_world
     = Inr (True, (16, 16, 16), example_dragging, emit [UndoBegin ''Move Vertex''] example_world)"
  by (simp_all add: activated_def leftMouseDown_def doBeginLeftDrag_def VertexTool_def
        assert_fails_def createHandleFigure_def deleteHandleFigure_def
        createSelectedHandleFigures_def deleteSelectedHandleFigures_def
        refreshSelectedHandleFigures_def emit_def tool_index_def Let_def
        example_active_def example_selected_def example_dragging_def example_world_def
        example_env_def example_hit_def)

section \<open>The drag step\<close>

text \<open>
  Under its three asserted preconditions \<open>doLeftDrag\<close> is, in either build, the zero-delta
  return, the abort, or the refresh after a move that left the handle addressable.
\<close>

lemma doLeftDrag_step:
  assumes "m_state t = DRAGGING" and "m_brush t = Some b" and "m_index t \<noteq> -1"
  shows "doLeftDrag bld e lastMousePoint curMousePoint referencePoint t w =
    (let delta = snappedDelta e w b (m_index t) curMousePoint referencePoint;
         result = fst (performMove e (doc w) b (m_index t) delta);
         w1 = emit [PerformMove b (m_index t) delta]
                (w\<lparr>doc := snd (performMove e (doc w) b (m_index t) delta)\<rparr>);
         t1 = t\<lparr>m_index := index result\<rparr>
     in if vnull e delta then Inr (True, referencePoint, t, w)
        else if index result = -1 then Inr (False, referencePoint, t1, w1)
        else (case refreshSelectedHandleFigures t1 w1 of
                Inl x \<Rightarrow> Inl x
              | Inr w2 \<Rightarrow>
                  Inr (True, if moved result then vadd e referencePoint delta else referencePoint,
                       t1, w2)))"
  using assms
  by (simp add: doLeftDrag_def snappedDelta_def assert_fails_def Let_def case_prod_beta)

text \<open>
  C1. A drag step in state \<open>DRAGGING\<close> whose snapped delta is not null and whose move
  returns index \<open>-1\<close> returns \<open>false\<close>; the reference point it returns is the one it was
  given, and the only call it makes is the move: the selected handle figures are not
  updated.
\<close>

theorem doLeftDrag_abort:
  assumes "m_state t = DRAGGING" and "m_brush t = Some b" and "m_index t \<noteq> -1"
    and "delta = snappedDelta e w b (m_index t) curMousePoint referencePoint"
    and "\<not> vnull e delta"
    and "index (fst (performMove e (doc w) b (m_index t) delta)) = -1"
  shows "\<exists>t' w'. doLeftDrag bld e lastMousePoint curMousePoint referencePoint t w
                    = Inr (False, referencePoint, t', w')
                \<and> trace w' = trace w @ [PerformMove b (m_index t) delta]"
  using assms(4-6)
  by (simp add: doLeftDrag_step [OF assms(1-3)] Let_def emit_def)

theorem doLeftDrag_abort_witness:
  "\<exists>t' w'. doLeftDrag Debug (example_env \<lparr>index = -1, moved = False\<rparr>) (0, 0, 0) (8, 0, 0) (0, 0, 0)
              example_dragging example_world = Inr (False, (0, 0, 0), t', w')
           \<and> trace w' = trace example_world @ [PerformMove 0 2 (8, 0, 0)]"
  using doLeftDrag_abort [of example_dragging 0 "(8, 0, 0)" "example_env \<lparr>index = -1, moved = False\<rparr>"
      example_world "(8, 0, 0)" "(0, 0, 0)" Debug "(0, 0, 0)"]
  by (simp add: example_dragging_def example_world_def example_env_def snappedDelta_def vec_sub_def)

text \<open>
  C2. A drag step in state \<open>DRAGGING\<close> with a snapped delta that is not null: when the move
  reports \<open>moved\<close> and an index other than \<open>-1\<close>, the step returns \<open>true\<close>, the reference
  point is the old one plus the delta (\<open>Vec3f\<close>'s \<open>+=\<close>), and \<open>m_index\<close> is the returned
  index; when the move reports not \<open>moved\<close>, the reference point is returned as it was.
\<close>

theorem doLeftDrag_reference_point:
  assumes "m_state t = DRAGGING" and "m_brush t = Some b" and "m_index t \<noteq> -1"
    and "m_selectedHandleFigure t = Some s" and "m_guideFigure t = Some g"
    and "delta = snappedDelta e w b (m_index t) curMousePoint referencePoint"
    and "\<not> vnull e delta"
    and "result = fst (performMove e (doc w) b (m_index t) delta)"
  shows "(moved result \<and> index result \<noteq> -1 \<longrightarrow>
            (\<exists>t' w'. doLeftDrag bld e lastMousePoint curMousePoint referencePoint t w
                       = Inr (True, vadd e referencePoint delta, t', w')
                   \<and> m_index t' = index result))
       \<and> (\<not> moved result \<longrightarrow>
            (\<exists>r t' w'. doLeftDrag bld e lastMousePoint curMousePoint referencePoint t w
                       = Inr (r, referencePoint, t', w')))"
  using assms(4-8)
  by (auto simp add: doLeftDrag_step [OF assms(1-3)] Let_def refreshSelectedHandleFigures_def
        assms(2))

theorem doLeftDrag_reference_point_witness:
  "(\<exists>t' w'. doLeftDrag Debug (example_env \<lparr>index = 5, moved = True\<rparr>) (0, 0, 0) (8, 0, 0) (0, 0, 0)
               example_dragging example_world = Inr (True, (8, 0, 0), t', w')
           \<and> m_index t' = 5)
 \<and> (\<exists>r t' w'. doLeftDrag Debug (example_env \<lparr>index = 2, moved = False\<rparr>) (0, 0, 0) (8, 0, 0) (0, 0, 0)
               example_dragging example_world = Inr (r, (0, 0, 0), t', w'))"
  using doLeftDrag_reference_point [of example_dragging 0 1 2 "(8, 0, 0)"
      "example_env \<lparr>index = 5, moved = True\<rparr>" example_world "(8, 0, 0)" "(0, 0, 0)"
      "\<lparr>index = 5, moved = True\<rparr>" Debug "(0, 0, 0)"]
    doLeftDrag_reference_point [of example_dragging 0 1 2 "(8, 0, 0)"
      "example_env \<lparr>index = 2, moved = False\<rparr>" example_world "(8, 0, 0)" "(0, 0, 0)"
      "\<lparr>index = 2, moved = False\<rparr>" Debug "(0, 0, 0)"]
  by (simp add: example_dragging_def example_world_def example_env_def snappedDelta_def
        vec_sub_def vec_add_def)

text \<open>
  C3. A drag step in state \<open>DRAGGING\<close> whose snapped delta is null returns \<open>true\<close> with the
  reference point, the tool (brush, handle index, figures) and the world (document and
  calls made, so no move and no figure update) exactly as they were.
\<close>

theorem doLeftDrag_zero_delta:
  assumes "m_state t = DRAGGING" and "m_brush t = Some b" and "m_index t \<noteq> -1"
    and "vnull e (snappedDelta e w b (m_index t) curMousePoint referencePoint)"
  shows "doLeftDrag bld e lastMousePoint curMousePoint referencePoint t w
           = Inr (True, referencePoint, t, w)"
  using assms(4) by (simp add: doLeftDrag_step [OF assms(1-3)] Let_def)

theorem doLeftDrag_zero_delta_witness:
  "doLeftDrag Debug (example_env \<lparr>index = 2, moved = True\<rparr>) (0, 0, 0) (8, 0, 0) (8, 0, 0)
     example_dragging example_world = Inr (True, (8, 0, 0), example_dragging, example_world)"
  using doLeftDrag_zero_delta [of example_dragging 0 "example_env \<lparr>index = 2, moved = True\<rparr>"
      example_world "(8, 0, 0)" "(8, 0, 0)" Debug "(0, 0, 0)"]
  by (simp add: example_dragging_def example_world_def example_env_def snappedDelta_def vec_sub_def)

text \<open>
  C9. A drag step in state \<open>DRAGGING\<close> with a snapped delta that is not null returns with
  \<open>m_index\<close> equal to the index the move returned and the state still \<open>DRAGGING\<close>; when that
  index is \<open>-1\<close> the step returns \<open>false\<close> and the stored index is \<open>-1\<close>.
\<close>

theorem doLeftDrag_index_overwritten:
  assumes "m_state t = DRAGGING" and "m_brush t = Some b" and "m_index t \<noteq> -1"
    and "m_selectedHandleFigure t = Some s" and "m_guideFigure t = Some g"
    and "delta = snappedDelta e w b (m_index t) curMousePoint referencePoint"
    and "\<not> vnull e delta"
    and "result = fst (performMove e (doc w) b (m_index t) delta)"
  shows "\<exists>r p t' w'. doLeftDrag bld e lastMousePoint curMousePoint referencePoint t w
                       = Inr (r, p, t', w')
           \<and> m_index t' = index result \<and> m_state t' = DRAGGING
           \<and> (index result = -1 \<longrightarrow> \<not> r \<and> m_index t' = -1)"
  using assms(4-8)
  by (auto simp add: doLeftDrag_step [OF assms(1-3)] Let_def refreshSelectedHandleFigures_def
        assms(1,2))

theorem doLeftDrag_index_overwritten_witness:
  "\<exists>r p t' w'. doLeftDrag Debug (example_env \<lparr>index = -1, moved = False\<rparr>) (0, 0, 0) (8, 0, 0)
                  (0, 0, 0) example_dragging example_world = Inr (r, p, t', w')
           \<and> m_index t' = -1 \<and> m_state t' = DRAGGING \<and> \<not> r"
  using doLeftDrag_index_overwritten [of example_dragging 0 1 2 "(8, 0, 0)"
      "example_env \<lparr>index = -1, moved = False\<rparr>" example_world "(8, 0, 0)" "(0, 0, 0)"
      "\<lparr>index = -1, moved = False\<rparr>" Debug "(0, 0, 0)"]
  by (auto simp add: example_dragging_def example_world_def example_env_def snappedDelta_def
        vec_sub_def)

section \<open>Beginning a drag\<close>

lemma deleteHandleFigure_fields:
  "m_state (fst (deleteHandleFigure t w)) = m_state t"
  "m_brush (fst (deleteHandleFigure t w)) = m_brush t"
  "m_index (fst (deleteHandleFigure t w)) = m_index t"
  "m_selectedHandleFigure (fst (deleteHandleFigure t w)) = m_selectedHandleFigure t"
  "m_guideFigure (fst (deleteHandleFigure t w)) = m_guideFigure t"
  "m_handleFigure (fst (deleteHandleFigure t w)) = None"
  by (simp_all add: deleteHandleFigure_def split: option.splits)

lemma deleteHandleFigure_undo_calls:
  "undo_calls (trace (snd (deleteHandleFigure t w))) = undo_calls (trace w)"
  by (simp add: deleteHandleFigure_def undo_calls_def emit_def split: option.splits)

lemma undo_calls_append: "undo_calls (xs @ ys) = undo_calls xs @ undo_calls ys"
  by (simp add: undo_calls_def)

text \<open>
  C6. When the pick gives no hit of the tool's hit type, \<open>doBeginLeftDrag\<close> returns \<open>false\<close>
  and the initial point, the tool and the world (so the undo manager too) are as they
  were. On a hit, in state \<open>SELECTED\<close>, it returns \<open>true\<close>, the initial point is the hit
  point, \<open>m_brush\<close> and \<open>m_index\<close> are the hit's, the state is \<open>DRAGGING\<close>, and the undo
  manager received exactly one more call: \<open>begin(undoName())\<close>.
\<close>

theorem doBeginLeftDrag_hit_or_miss:
  "(hits_first ev (hitType e) True = None \<longrightarrow>
      doBeginLeftDrag bld e ev initialPoint t w = Inr (False, initialPoint, t, w))
 \<and> (hits_first ev (hitType e) True = Some hit \<and> m_state t = SELECTED \<longrightarrow>
      (\<exists>t' w'. doBeginLeftDrag bld e ev initialPoint t w = Inr (True, hitPoint hit, t', w')
         \<and> m_brush t' = Some (hit_brush hit) \<and> m_index t' = hit_index hit
         \<and> m_state t' = DRAGGING
         \<and> undo_calls (trace w') = undo_calls (trace w) @ [UndoBegin (undoName e)]))"
  by (simp add: doBeginLeftDrag_def assert_fails_def Let_def case_prod_beta tool_index_def
        deleteHandleFigure_fields deleteHandleFigure_undo_calls undo_calls_append emit_def)
    (simp add: undo_calls_def)

theorem doBeginLeftDrag_hit_or_miss_witness:
  "doBeginLeftDrag Debug (example_env \<lparr>index = 2, moved = True\<rparr>) example_miss (0, 0, 0)
      example_selected example_world = Inr (False, (0, 0, 0), example_selected, example_world)
 \<and> (\<exists>t' w'. doBeginLeftDrag Debug (example_env \<lparr>index = 2, moved = True\<rparr>) example_hit (0, 0, 0)
        example_selected example_world = Inr (True, (16, 16, 16), t', w')
         \<and> m_brush t' = Some 0 \<and> m_index t' = 2 \<and> m_state t' = DRAGGING
         \<and> undo_calls (trace w') = undo_calls (trace example_world) @ [UndoBegin ''Move Vertex''])"
  using doBeginLeftDrag_hit_or_miss [where ev = example_miss
      and e = "example_env \<lparr>index = 2, moved = True\<rparr>" and bld = Debug
      and initialPoint = "(0, 0, 0)" and t = example_selected and w = example_world]
    doBeginLeftDrag_hit_or_miss [where ev = example_hit
      and e = "example_env \<lparr>index = 2, moved = True\<rparr>" and bld = Debug
      and hit = "\<lparr>hit_brush = 0, hit_index = 2, hitPoint = (16, 16, 16)\<rparr>"
      and initialPoint = "(0, 0, 0)" and t = example_selected and w = example_world]
  by (simp add: example_miss_def example_hit_def example_env_def example_selected_def)


section \<open>Notifications\<close>

lemma brushesDidChange_loop_eq:
  "brushesDidChange_loop t w brushes =
     (if \<exists>b \<in> set brushes. selected b then refreshForState t w else Inr w)"
  by (induction brushes) auto

lemma refreshForState_active:
  "m_state t = ACTIVE \<Longrightarrow> m_handleFigure t = Some f \<Longrightarrow>
     refreshForState t w = Inr (emit [UpdateHandleFigure f] w)"
  by (simp add: refreshForState_def refreshHandleFigure_def)

lemma refreshForState_selected:
  "m_state t = SELECTED \<or> m_state t = DRAGGING \<Longrightarrow> m_selectedHandleFigure t = Some s \<Longrightarrow>
   m_guideFigure t = Some g \<Longrightarrow> m_brush t = Some b \<Longrightarrow>
     refreshForState t w = Inr (emit [UpdateSelectedHandleFigures s g b (m_index t)] w)"
  by (auto simp add: refreshForState_def refreshSelectedHandleFigures_def)

text \<open>
  C4, as stated, fails: in state \<open>ACTIVE\<close> a brushes-changed notification that carries one
  brush, not selected, returns with no call made; the handle figure is not updated.
\<close>

theorem brushesDidChange_no_refresh:
  "brushesDidChange Debug [\<lparr>brush_id = 0, selected = False\<rparr>] example_active example_world
     = Inr example_world
   \<and> trace example_world = []"
  by (simp add: brushesDidChange_def assert_fails_def example_active_def example_world_def)

text \<open>
  C4, amended. In state \<open>ACTIVE\<close> (with its handle figure) or in \<open>SELECTED\<close> or \<open>DRAGGING\<close>
  (with the selected handle figure, the guide figure and the brush), \<open>selectionChanged\<close>
  always updates the figures of that state, once. \<open>brushesDidChange\<close> makes the same
  update, once, when the notification carries at least one selected brush, and makes no
  call when it carries none.
\<close>

theorem notifications_refresh:
  "(m_state t = ACTIVE \<and> m_handleFigure t = Some f \<longrightarrow>
      selectionChanged bld t w = Inr (emit [UpdateHandleFigure f] w)
    \<and> brushesDidChange bld brushes t w =
        (if \<exists>b \<in> set brushes. selected b then Inr (emit [UpdateHandleFigure f] w) else Inr w))
 \<and> ((m_state t = SELECTED \<or> m_state t = DRAGGING) \<and> m_selectedHandleFigure t = Some s
      \<and> m_guideFigure t = Some g \<and> m_brush t = Some b \<longrightarrow>
      selectionChanged bld t w = Inr (emit [UpdateSelectedHandleFigures s g b (m_index t)] w)
    \<and> brushesDidChange bld brushes t w =
        (if \<exists>b \<in> set brushes. selected b
         then Inr (emit [UpdateSelectedHandleFigures s g b (m_index t)] w) else Inr w))"
proof (intro conjI impI)
  assume a: "m_state t = ACTIVE \<and> m_handleFigure t = Some f"
  then show "selectionChanged bld t w = Inr (emit [UpdateHandleFigure f] w)"
    by (simp add: selectionChanged_def assert_fails_def refreshForState_active)
  from a show "brushesDidChange bld brushes t w =
        (if \<exists>b \<in> set brushes. selected b then Inr (emit [UpdateHandleFigure f] w) else Inr w)"
    by (simp add: brushesDidChange_def assert_fails_def brushesDidChange_loop_eq
          refreshForState_active)
next
  assume a: "(m_state t = SELECTED \<or> m_state t = DRAGGING) \<and> m_selectedHandleFigure t = Some s
      \<and> m_guideFigure t = Some g \<and> m_brush t = Some b"
  then have r: "refreshForState t w = Inr (emit [UpdateSelectedHandleFigures s g b (m_index t)] w)"
    by (simp add: refreshForState_selected)
  from a have n: "m_state t \<noteq> INACTIVE" by auto
  show "selectionChanged bld t w = Inr (emit [UpdateSelectedHandleFigures s g b (m_index t)] w)"
    by (simp add: selectionChanged_def assert_fails_def r n)
  show "brushesDidChange bld brushes t w =
        (if \<exists>b \<in> set brushes. selected b
         then Inr (emit [UpdateSelectedHandleFigures s g b (m_index t)] w) else Inr w)"
    by (simp add: brushesDidChange_def assert_fails_def brushesDidChange_loop_eq r n)
qed

theorem notifications_refresh_witness:
  "selectionChanged Debug example_active example_world
     = Inr (emit [UpdateHandleFigure 0] example_world)
 \<and> brushesDidChange Debug [\<lparr>brush_id = 4, selected = False\<rparr>, \<lparr>brush_id = 0, selected = True\<rparr>]
      example_active example_world = Inr (emit [UpdateHandleFigure 0] example_world)
 \<and> brushesDidChange Debug [\<lparr>brush_id = 4, selected = False\<rparr>] example_active example_world
     = Inr example_world
 \<and> selectionChanged Debug example_dragging example_world
     = Inr (emit [UpdateSelectedHandleFigures 1 2 0 2] example_world)
 \<and> brushesDidChange Debug [\<lparr>brush_id = 0, selected = True\<rparr>] example_selected example_world
     = Inr (emit [UpdateSelectedHandleFigures 1 2 0 2] example_world)"
  using notifications_refresh [where t = example_active and f = 0 and bld = Debug
      and w = example_world
      and brushes = "[\<lparr>brush_id = 4, selected = False\<rparr>, \<lparr>brush_id = 0, selected = True\<rparr>]"]
    notifications_refresh [where t = example_active and f = 0 and bld = Debug
      and w = example_world and brushes = "[\<lparr>brush_id = 4, selected = False\<rparr>]"]
    notifications_refresh [where t = example_dragging and s = 1 and g = 2 and b = 0
      and bld = Debug and w = example_world and brushes = "[]"]
    notifications_refresh [where t = example_selected and s = 1 and g = 2 and b = 0
      and bld = Debug and w = example_world and brushes = "[\<lparr>brush_id = 0, selected = True\<rparr>]"]
  by (simp add: example_active_def example_dragging_def example_selected_def)


section \<open>Deactivation\<close>

text \<open>
  C5. \<open>deactivated\<close> in state \<open>SELECTED\<close>: the tool ends in \<open>INACTIVE\<close> with the brush, the
  handle index and both selected figures it had; only the unselected handle figure (none
  here) is deleted and the listeners are removed. \<open>leftMouseUp\<close> and \<open>doEndLeftDrag\<close>, the
  other ways out of \<open>SELECTED\<close> and \<open>DRAGGING\<close>, reset all of these.
\<close>

theorem deactivated_keeps_session:
  "deactivated Debug example_selected example_world =
     Inr (\<lparr>m_state = INACTIVE, m_brush = Some 0, m_index = 2, m_handleFigure = None,
            m_selectedHandleFigure = Some 1, m_guideFigure = Some 2\<rparr>,
          \<lparr>doc = (16, 16, 16),
           trace = [Unsubscribe BrushesDidChange, Unsubscribe SelectionAdded,
                    Unsubscribe SelectionRemoved],
           next_figure = 3\<rparr>)"
  by (simp add: deactivated_def assert_fails_def deleteHandleFigure_def emit_def
        example_selected_def example_world_def)

text \<open>In general \<open>deactivated\<close> leaves \<open>m_brush\<close> and \<open>m_index\<close> as they are.\<close>

lemma deactivated_fields:
  assumes "m_state t \<noteq> INACTIVE"
  shows "\<exists>t' w'. deactivated bld t w = Inr (t', w') \<and> m_state t' = INACTIVE
           \<and> m_brush t' = m_brush t \<and> m_index t' = m_index t"
  using assms
  by (simp add: deactivated_def assert_fails_def Let_def case_prod_beta deleteHandleFigure_fields)

section \<open>Operations called in a state their assertion excludes\<close>























section \<open>The convex merge command\<close>

text \<open>
  C7. \<open>canDoCsgConvexMerge\<close> holds only when at least two brushes or at least two brush
  faces are selected or an active tool reports that it can merge; \<open>csgConvexMerge\<close>
  forwards to the document only when at least two brushes or two faces are selected;
  with fewer than two of each and no such tool the command is not enabled and
  \<open>csgConvexMerge\<close> makes no call.
\<close>

theorem csgConvexMerge_needs_two:
  "(canDoCsgConvexMerge f \<longrightarrow>
      selectedNodes_brushCount f \<ge> 2 \<or> selectedBrushFaces_size f \<ge> 2 \<or> toolCanMerge f)
 \<and> (DocumentMerge \<in> set (csgConvexMerge f) \<longrightarrow>
      selectedNodes_brushCount f \<ge> 2 \<or> selectedBrushFaces_size f \<ge> 2)
 \<and> (selectedNodes_brushCount f < 2 \<and> selectedBrushFaces_size f < 2 \<and> \<not> toolCanMerge f \<longrightarrow>
      \<not> canDoCsgConvexMerge f \<and> csgConvexMerge f = [])"
  by (auto simp add: canDoCsgConvexMerge_def csgConvexMerge_def toolCanMerge_def)

theorem csgConvexMerge_needs_two_witness:
  "canDoCsgConvexMerge (example_frame 0 2) \<and> selectedNodes_brushCount (example_frame 0 2) \<ge> 2
 \<and> csgConvexMerge (example_frame 0 2) = [DocumentMerge]
 \<and> csgConvexMerge (example_frame 2 0) = [DocumentMerge]
 \<and> selectedBrushFaces_size (example_frame 2 0) \<ge> 2
 \<and> \<not> canDoCsgConvexMerge (example_frame 1 1) \<and> csgConvexMerge (example_frame 1 1) = []"
  using csgConvexMerge_needs_two [of "example_frame 0 2"]
    csgConvexMerge_needs_two [of "example_frame 2 0"]
    csgConvexMerge_needs_two [of "example_frame 1 1"]
  by (simp add: example_frame_def canDoCsgConvexMerge_def csgConvexMerge_def toolCanMerge_def)

section \<open>The palette\<close>

text \<open>
  C10. A palette file of three bytes and an image of one pixel with index 1: the
  assertion \<open>index < m_size\<close> holds (1 < 3), and the first read, at offset 3, is outside
  the three bytes of \<open>m_data\<close>.
\<close>

theorem indexToRgb_reads_past_palette:
  "Palette_load Debug (Some [10, 20, 30]) = Inr example_palette
 \<and> uint (1 :: byte) < m_size example_palette
 \<and> indexToRgb Debug example_palette [1] [0, 0, 0] 1 = Inl (OutOfBounds PaletteData)"
  by (simp add: Palette_load_def assert_fails_def example_palette_def indexToRgb_def
        read_byte_def write_byte_def)

end
